theory Spec2Isabelle
  imports Main "HOL-Library.Sublist"
begin

section \<open>Data model (src/types.ts)\<close>

text \<open>
  The TypeScript interfaces become records and the enums datatypes. A field of type
  \<^verbatim>\<open>T | null\<close> is a \<open>T option\<close>. Field names that two interfaces share, or that
  clash with a HOL constant (\<open>id\<close>), carry a prefix. A JavaScript string is a list of
  code units; only code units below 256 are represented.
\<close>

datatype WorkflowStatus = Draft | Generated | Deployed

record WorkflowStep =
  step_id :: string
  action :: string
  service :: string

record WorkflowPlan =
  plan_name :: string
  plan_description :: string
  steps :: "WorkflowStep list"

record Workflow =
  wf_id :: string
  name :: string
  description :: string
  prompt :: string
  plan :: "WorkflowPlan option"
  script :: "string option"
  status :: WorkflowStatus
  createdAt :: nat

datatype WizardStep = Describe | Review | Deploy

datatype role = User | Model

record turn =
  role :: role
  turn_text :: string

section \<open>JavaScript primitives used by the code\<close>

text \<open>
  Truthiness of a value of type \<^verbatim>\<open>string | null | undefined\<close>: null, undefined and the
  empty string are falsy.
\<close>

definition truthy :: "string option \<Rightarrow> bool" where
  "truthy v = (case v of None \<Rightarrow> False | Some s \<Rightarrow> s \<noteq> [])"

text \<open>\<^verbatim>\<open>String.prototype.trim\<close>: white space and line terminators below code unit 256.\<close>

definition is_whitespace :: "char \<Rightarrow> bool" where
  "is_whitespace c =
     (c = CHR 0x09 \<or> c = CHR 0x0A \<or> c = CHR 0x0B \<or> c = CHR 0x0C \<or> c = CHR 0x0D
      \<or> c = CHR 0x20 \<or> c = CHR 0xA0)"

definition trim :: "string \<Rightarrow> string" where
  "trim s = rev (dropWhile is_whitespace (rev (dropWhile is_whitespace s)))"

text \<open>\<^verbatim>\<open>Array.prototype.join(sep)\<close> on an array of strings.\<close>

fun join :: "string \<Rightarrow> string list \<Rightarrow> string" where
  "join sep [] = []"
| "join sep [x] = x"
| "join sep (x # y # ys) = x @ sep @ join sep (y # ys)"

text \<open>
  \<^verbatim>\<open>s.replace(/pat/g, '')\<close> for a literal, non-empty pattern: every match is removed,
  scanning from the left and resuming after each match.
\<close>

function remove_all :: "string \<Rightarrow> string \<Rightarrow> string" where
  "remove_all pat [] = []"
| "remove_all pat (c # cs) =
     (if pat \<noteq> [] \<and> prefix pat (c # cs)
      then remove_all pat (drop (length pat) (c # cs))
      else c # remove_all pat cs)"
  by pat_completeness auto
termination
  by (relation "measure (\<lambda>(pat, s). length s)") auto

section \<open>The completion service (src/services/geminiService.ts)\<close>

text \<open>
  The generative service is opaque. One awaited \<^verbatim>\<open>ai.models.generateContent\<close> call either
  rejects or resolves to a response whose \<^verbatim>\<open>text\<close> may be undefined: its outcome is a value
  of type \<open>error + string option\<close>, given to the model as an argument.
\<close>

datatype error =
    CapabilityError string
  | InvalidFormat

record PlanGenerationResult =
  isValid :: "bool option"
  question :: "string option"
  result_plan :: "WorkflowPlan option"

text \<open>
  What \<^verbatim>\<open>JSON.parse\<close> returns, seen through the three properties the code reads:
  \<open>JSNull\<close> is the value null (reading a property of it throws a TypeError), \<open>JSValue r\<close>
  any other value, with an undefined or null property as \<open>None\<close>. The parser itself
  is a parameter; \<open>None\<close> is a thrown SyntaxError.
\<close>

datatype parsed = JSNull | JSValue PlanGenerationResult

definition generateAutomationPlan ::
  "(string \<Rightarrow> parsed option) \<Rightarrow> error + string option \<Rightarrow> error + PlanGenerationResult" where
  "generateAutomationPlan JSON_parse response =
     (case response of
        Inl e \<Rightarrow> Inl e
      | Inr response_text \<Rightarrow>
          (let text = (if truthy response_text then the response_text else ''{}'') in
           case JSON_parse text of
             None \<Rightarrow> Inl InvalidFormat
           | Some JSNull \<Rightarrow> Inl InvalidFormat
           | Some (JSValue result) \<Rightarrow>
               Inr \<lparr>isValid = isValid result, question = question result,
                    result_plan = result_plan result\<rparr>))"

definition code_fence :: string where
  "code_fence = [CHR 0x60, CHR 0x60, CHR 0x60]"

definition generateScript :: "error + string option \<Rightarrow> error + string" where
  "generateScript response =
     (case response of
        Inl e \<Rightarrow> Inl e
      | Inr response_text \<Rightarrow>
          Inr (trim (remove_all code_fence
                 (remove_all (code_fence @ ''javascript'')
                    (if truthy response_text then the response_text else [])))))"

section \<open>The wizard (WorkflowWizard component)\<close>

record wizard =
  step :: WizardStep
  loading :: bool
  promptText :: string
  conversationHistory :: "turn list"
  clarificationQuestion :: "string option"

definition initialStep :: "Workflow \<Rightarrow> WizardStep" where
  "initialStep workflow =
     (if truthy (script workflow) then Deploy
      else if plan workflow \<noteq> None then Review
      else Describe)"

text \<open>The component state when the wizard is mounted on a workflow.\<close>

definition mount :: "Workflow \<Rightarrow> wizard" where
  "mount workflow =
     \<lparr>step = initialStep workflow, loading = False, promptText = prompt workflow,
      conversationHistory = [], clarificationQuestion = None\<rparr>"

text \<open>
  A handler runs to completion (at most one request is in flight). Its effects are
  the component state afterwards, the argument of \<^verbatim>\<open>onUpdate\<close> if it was called, the
  service calls it made, and the error its promise rejects with. A service call is
  recorded by the arguments of the service function: the request text sent to the
  model is built from them alone (for the plan, a fixed rubric around the history
  lines joined by newlines and the utterance).
\<close>

datatype call =
    PlanCall string "string list"
  | ScriptCall WorkflowPlan string

record run =
  wizard_after :: wizard
  updated :: "Workflow option"
  calls :: "call list"
  thrown :: "error option"

definition historyStr :: "turn list \<Rightarrow> string list" where
  "historyStr h = map (\<lambda>m. (if role m = User then ''User'' else ''AI'') @ '': '' @ turn_text m) h"

definition handleGeneratePlan ::
  "error + PlanGenerationResult \<Rightarrow> Workflow \<Rightarrow> wizard \<Rightarrow> run" where
  "handleGeneratePlan awaited workflow wz =
     (if trim (promptText wz) = [] then
        \<lparr>wizard_after = wz, updated = None, calls = [], thrown = None\<rparr>
      else
        let wz1 = wz\<lparr>loading := True, clarificationQuestion := None\<rparr>;
            request = PlanCall (promptText wz) (historyStr (conversationHistory wz))
        in case awaited of
             Inl e \<Rightarrow>
               \<lparr>wizard_after = wz1\<lparr>loading := False\<rparr>, updated = None,
                calls = [request], thrown = Some e\<rparr>
           | Inr result \<Rightarrow>
               if isValid result = Some True \<and> result_plan result \<noteq> None then
                 let finalPromptContext =
                       join '' '' (map turn_text (conversationHistory wz
                                     @ [\<lparr>role = User, turn_text = promptText wz\<rparr>]));
                     p = the (result_plan result)
                 in \<lparr>wizard_after = wz1\<lparr>step := Review, loading := False\<rparr>,
                     updated = Some (workflow\<lparr>prompt := finalPromptContext,
                                       name := plan_name p,
                                       description := plan_description p,
                                       plan := Some p,
                                       status := Draft\<rparr>),
                     calls = [request], thrown = None\<rparr>
               else if truthy (question result) then
                 let newHistory = conversationHistory wz
                       @ [\<lparr>role = User, turn_text = promptText wz\<rparr>,
                          \<lparr>role = Model, turn_text = the (question result)\<rparr>]
                 in \<lparr>wizard_after = wz1\<lparr>conversationHistory := newHistory,
                                       clarificationQuestion := Some (the (question result)),
                                       promptText := [], loading := False\<rparr>,
                     updated = None, calls = [request], thrown = None\<rparr>
               else
                 \<lparr>wizard_after = wz1\<lparr>loading := False\<rparr>, updated = None,
                  calls = [request], thrown = None\<rparr>)"

definition handleGenerateScript ::
  "error + string \<Rightarrow> Workflow \<Rightarrow> wizard \<Rightarrow> run" where
  "handleGenerateScript awaited workflow wz =
     (case plan workflow of
        None \<Rightarrow> \<lparr>wizard_after = wz, updated = None, calls = [], thrown = None\<rparr>
      | Some p \<Rightarrow>
          (let wz1 = wz\<lparr>loading := True\<rparr>;
               request = ScriptCall p (prompt workflow)
           in case awaited of
                Inl e \<Rightarrow>
                  \<lparr>wizard_after = wz1\<lparr>loading := False\<rparr>, updated = None,
                   calls = [request], thrown = Some e\<rparr>
              | Inr code \<Rightarrow>
                  \<lparr>wizard_after = wz1\<lparr>step := Deploy, loading := False\<rparr>,
                   updated = Some (workflow\<lparr>script := Some code, status := Generated\<rparr>),
                   calls = [request], thrown = None\<rparr>))"

text \<open>
  What the application shows after a handler has run: \<^verbatim>\<open>onUpdate\<close> is the store's
  \<^verbatim>\<open>handleUpdateWorkflow\<close>, and the \<^verbatim>\<open>workflow\<close> prop is the store's entry with the active
  id, so a call of \<^verbatim>\<open>onUpdate\<close> replaces the prop and no call leaves it as it was.
\<close>

definition workflow_after :: "Workflow \<Rightarrow> run \<Rightarrow> Workflow" where
  "workflow_after workflow r = (case updated r of None \<Rightarrow> workflow | Some u \<Rightarrow> u)"

text \<open>
  The "Refine Instructions" button of the Review screen: \<^verbatim>\<open>setStep(WizardStep.Describe)\<close>
  and nothing else; \<^verbatim>\<open>onUpdate\<close> is not called.
\<close>

definition refine :: "Workflow \<times> wizard \<Rightarrow> Workflow \<times> wizard" where
  "refine s = (fst s, (snd s)\<lparr>step := Describe\<rparr>)"

text \<open>
  One turn of the Describe screen: the user's text is put in the textarea
  (\<^verbatim>\<open>onChange\<close> calls \<^verbatim>\<open>setPromptText\<close>), then the button runs \<^verbatim>\<open>handleGeneratePlan\<close>, whose
  awaited \<^verbatim>\<open>generateAutomationPlan\<close> call has the given outcome.
\<close>

definition submitUtterance ::
  "string \<Rightarrow> error + PlanGenerationResult \<Rightarrow> Workflow \<times> wizard \<Rightarrow> Workflow \<times> wizard" where
  "submitUtterance utterance awaited s =
     (let r = handleGeneratePlan awaited (fst s) ((snd s)\<lparr>promptText := utterance\<rparr>)
      in (workflow_after (fst s) r, wizard_after r))"

text \<open>
  The script button of the Review screen run on a state, and the application's way
  back into the wizard: \<^verbatim>\<open>handleCloseWizard\<close> unmounts the component (its state is lost)
  and \<^verbatim>\<open>handleSelectWorkflow\<close> mounts a new one on the stored workflow.
\<close>

definition requestSynthesis ::
  "error + string \<Rightarrow> Workflow \<times> wizard \<Rightarrow> Workflow \<times> wizard" where
  "requestSynthesis awaited s =
     (let r = handleGenerateScript awaited (fst s) (snd s)
      in (workflow_after (fst s) r, wizard_after r))"

definition reopen :: "Workflow \<times> wizard \<Rightarrow> Workflow \<times> wizard" where
  "reopen s = (fst s, mount (fst s))"

text \<open>
  A result that takes the clarification branch of \<^verbatim>\<open>handleGeneratePlan\<close>, and one that
  takes the acceptance branch.
\<close>

definition needsClarification :: "PlanGenerationResult \<Rightarrow> bool" where
  "needsClarification r =
     (\<not> (isValid r = Some True \<and> result_plan r \<noteq> None) \<and> truthy (question r))"

definition accepted :: "PlanGenerationResult \<Rightarrow> bool" where
  "accepted r = (isValid r = Some True \<and> result_plan r \<noteq> None)"

text \<open>
  A session: clarification rounds, each an utterance and the result it was answered
  with, played in order from a state.
\<close>

fun rounds :: "(string \<times> PlanGenerationResult) list \<Rightarrow> Workflow \<times> wizard \<Rightarrow> Workflow \<times> wizard" where
  "rounds [] s = s"
| "rounds ((u, r) # rs) s = rounds rs (submitUtterance u (Inr r) s)"

text \<open>The texts a session's rounds put in the conversation: utterance, then question.\<close>

fun transcript :: "(string \<times> PlanGenerationResult) list \<Rightarrow> string list" where
  "transcript [] = []"
| "transcript ((u, r) # rs) = u # the (question r) # transcript rs"

section \<open>The workflow store (src/App.tsx)\<close>

definition newWorkflow :: "string \<Rightarrow> nat \<Rightarrow> Workflow" where
  "newWorkflow uuid now =
     \<lparr>wf_id = uuid, name = [], description = [], prompt = [], plan = None,
      script = None, status = Draft, createdAt = now\<rparr>"

definition handleCreateNew :: "string \<Rightarrow> nat \<Rightarrow> Workflow list \<Rightarrow> Workflow list" where
  "handleCreateNew uuid now workflows = newWorkflow uuid now # workflows"

definition handleDeleteWorkflow :: "string \<Rightarrow> Workflow list \<Rightarrow> Workflow list" where
  "handleDeleteWorkflow i workflows = filter (\<lambda>w. wf_id w \<noteq> i) workflows"

definition handleUpdateWorkflow :: "Workflow \<Rightarrow> Workflow list \<Rightarrow> Workflow list" where
  "handleUpdateWorkflow u workflows =
     map (\<lambda>w. if wf_id w = wf_id u then u else w) workflows"

definition activeWorkflow :: "string option \<Rightarrow> Workflow list \<Rightarrow> Workflow option" where
  "activeWorkflow activeWorkflowId workflows =
     find (\<lambda>w. Some (wf_id w) = activeWorkflowId) workflows"

section \<open>Wizard sessions\<close>

text \<open>
  The states the application reaches on a workflow made by \<^verbatim>\<open>handleCreateNew\<close>, which
  opens the wizard on it. Each button exists only on the screen of its step: the plan
  button on Describe, the refine and script buttons on Review (shown when the workflow
  has a plan). The input buffer may change at any time (typing, or a transcription
  that arrives). The wizard can be closed and opened again on the stored workflow at
  any time.
\<close>

inductive reachable :: "Workflow \<times> wizard \<Rightarrow> bool" where
  create: "reachable (newWorkflow uuid now, mount (newWorkflow uuid now))"
| typing: "reachable (w, wz) \<Longrightarrow> reachable (w, wz\<lparr>promptText := s\<rparr>)"
| submit: "reachable (w, wz) \<Longrightarrow> step wz = Describe \<Longrightarrow>
           reachable (workflow_after w (handleGeneratePlan awaited w wz),
                      wizard_after (handleGeneratePlan awaited w wz))"
| synthesize: "reachable (w, wz) \<Longrightarrow> step wz = Review \<Longrightarrow> plan w \<noteq> None \<Longrightarrow>
           reachable (workflow_after w (handleGenerateScript awaited w wz),
                      wizard_after (handleGenerateScript awaited w wz))"
| refining: "reachable (w, wz) \<Longrightarrow> step wz = Review \<Longrightarrow> plan w \<noteq> None \<Longrightarrow>
           reachable (refine (w, wz))"
| reopening: "reachable (w, wz) \<Longrightarrow> reachable (reopen (w, wz))"

section \<open>Example values\<close>

definition ex_plan :: WorkflowPlan where
  "ex_plan = \<lparr>plan_name = ''Invoice Notifier'', plan_description = ''Mail on invoices'',
              steps = [\<lparr>step_id = ''1'', action = ''Poll Gmail for label Invoices'', service = ''Gmail''\<rparr>]\<rparr>"

definition ex_accept :: PlanGenerationResult where
  "ex_accept = \<lparr>isValid = Some True, question = None, result_plan = Some ex_plan\<rparr>"

definition ex_clarify :: PlanGenerationResult where
  "ex_clarify = \<lparr>isValid = Some False, question = Some ''Which provider?'', result_plan = None\<rparr>"

definition ex_empty :: PlanGenerationResult where
  "ex_empty = \<lparr>isValid = None, question = None, result_plan = None\<rparr>"

definition ex_parse :: "string \<Rightarrow> parsed option" where
  "ex_parse t = (if t = ''{}'' then Some (JSValue ex_empty)
                 else if t = ''clarify'' then Some (JSValue ex_clarify)
                 else if t = ''null'' then Some JSNull
                 else None)"

definition ex_new :: Workflow where
  "ex_new = newWorkflow ''w1'' 0"

definition ex_draft :: Workflow where
  "ex_draft = ex_new\<lparr>prompt := ''invoices'', name := ''Invoice Notifier'',
                 description := ''Mail on invoices'', plan := Some ex_plan\<rparr>"

text \<open>
  A session on a new workflow: a plan is accepted; synthesis gets a response without
  text; the wizard is closed, opened again and sent back to Describe; a plan is
  accepted again.
\<close>

definition ex_accepted :: "Workflow \<times> wizard" where
  "ex_accepted = submitUtterance ''invoices'' (Inr ex_accept) (ex_new, mount ex_new)"

definition ex_synthesized :: "Workflow \<times> wizard" where
  "ex_synthesized = requestSynthesis (generateScript (Inr None)) ex_accepted"

definition ex_reaccepted :: "Workflow \<times> wizard" where
  "ex_reaccepted = submitUtterance ''Gmail'' (Inr ex_accept) (refine (reopen ex_synthesized))"

section \<open>Auxiliary facts\<close>

lemma trim_Nil_iff: "trim s = [] \<longleftrightarrow> (\<forall>c\<in>set s. is_whitespace c)"
proof
  assume "trim s = []"
  then have all: "\<forall>c\<in>set (dropWhile is_whitespace s). is_whitespace c"
    by (simp add: trim_def)
  show "\<forall>c\<in>set s. is_whitespace c"
  proof (cases "dropWhile is_whitespace s")
    case Nil
    then show ?thesis by simp
  next
    case (Cons c cs)
    then have "\<not> is_whitespace c" using hd_dropWhile [of is_whitespace s] by simp
    moreover have "is_whitespace c" using all Cons by simp
    ultimately show ?thesis by simp
  qed
next
  assume "\<forall>c\<in>set s. is_whitespace c"
  then have "dropWhile is_whitespace s = []" by simp
  then show "trim s = []" by (simp only: trim_def rev.simps dropWhile.simps)
qed

lemma trim_examples:
  "trim ''Gmail'' \<noteq> []" "trim ''invoices'' \<noteq> []" "trim ''hourly'' \<noteq> []"
  by (simp_all add: trim_def is_whitespace_def)

lemma length_filter_split:
  "length (filter P xs) + length (filter (\<lambda>x. \<not> P x) xs) = length xs"
  by (induction xs) auto

lemma activeWorkflow_update:
  "activeWorkflow (Some i) ws = Some w \<Longrightarrow> wf_id u = wf_id w
   \<Longrightarrow> activeWorkflow (Some i) (handleUpdateWorkflow u ws) = Some u"
  by (induction ws) (auto simp: activeWorkflow_def handleUpdateWorkflow_def split: if_splits)

lemma updated_keeps_id:
  "updated (handleGeneratePlan a w wz) = Some u \<Longrightarrow> wf_id u = wf_id w"
  "updated (handleGenerateScript b w wz) = Some u \<Longrightarrow> wf_id u = wf_id w"
  by (auto simp: handleGeneratePlan_def handleGenerateScript_def Let_def
      split: if_splits sum.splits option.splits)

lemma submitUtterance_clarify:
  assumes "trim u \<noteq> []" and "needsClarification r"
  shows "submitUtterance u (Inr r) s =
           (fst s, (snd s)\<lparr>loading := False, promptText := [],
              conversationHistory := conversationHistory (snd s)
                @ [\<lparr>role = User, turn_text = u\<rparr>, \<lparr>role = Model, turn_text = the (question r)\<rparr>],
              clarificationQuestion := Some (the (question r))\<rparr>)"
  using assms
  by (auto simp: submitUtterance_def handleGeneratePlan_def needsClarification_def
      workflow_after_def Let_def)

lemma submitUtterance_accept:
  assumes "trim u \<noteq> []" and "accepted r"
  shows "prompt (fst (submitUtterance u (Inr r) s)) =
           join '' '' (map turn_text (conversationHistory (snd s)) @ [u])"
  using assms
  by (simp add: submitUtterance_def handleGeneratePlan_def accepted_def
      workflow_after_def Let_def)

lemma rounds_history:
  assumes "\<forall>(u, r)\<in>set rs. trim u \<noteq> [] \<and> needsClarification r"
  shows "map turn_text (conversationHistory (snd (rounds rs s)))
           = map turn_text (conversationHistory (snd s)) @ transcript rs"
  using assms
proof (induction rs arbitrary: s)
  case Nil
  then show ?case by simp
next
  case (Cons a rs)
  obtain u r where a: "a = (u, r)" by (cases a)
  from Cons.prems a have ur: "trim u \<noteq> []" "needsClarification r"
    and rest: "\<forall>(u, r)\<in>set rs. trim u \<noteq> [] \<and> needsClarification r"
    by auto
  show ?case
    using Cons.IH [OF rest, of "submitUtterance u (Inr r) s"]
    by (simp add: a submitUtterance_clarify [OF ur])
qed

section \<open>Clarification rounds\<close>

text \<open>
  Claim C5. When the text in the input buffer is not blank and the completion
  service returns a result with \<^verbatim>\<open>isValid\<close> false and a non-empty question, the plan
  handler leaves the wizard on its step (Describe stays Describe), appends exactly two
  turns to the conversation, the user's utterance and then the model's question, makes
  that question the pending one, empties the input buffer, and does not touch the
  workflow: \<^verbatim>\<open>onUpdate\<close> is not called and nothing is thrown.
\<close>

theorem clarification_round:
  assumes "trim (promptText wz) \<noteq> []"
    and "generateAutomationPlan JSON_parse response = Inr r"
    and "isValid r = Some False" and "question r = Some q" and "q \<noteq> []"
  shows "let R = handleGeneratePlan (generateAutomationPlan JSON_parse response) w wz in
           step (wizard_after R) = step wz
         \<and> conversationHistory (wizard_after R) =
             conversationHistory wz @ [\<lparr>role = User, turn_text = promptText wz\<rparr>,
                                       \<lparr>role = Model, turn_text = q\<rparr>]
         \<and> clarificationQuestion (wizard_after R) = Some q
         \<and> promptText (wizard_after R) = []
         \<and> updated R = None \<and> workflow_after w R = w \<and> thrown R = None
         \<and> calls R = [PlanCall (promptText wz) (historyStr (conversationHistory wz))]"
  using assms by (simp add: handleGeneratePlan_def workflow_after_def truthy_def Let_def)

theorem clarification_round_witness:
  "trim (promptText ((mount ex_new)\<lparr>promptText := ''invoices''\<rparr>)) \<noteq> []
   \<and> generateAutomationPlan ex_parse (Inr (Some ''clarify'')) = Inr ex_clarify
   \<and> isValid ex_clarify = Some False \<and> question ex_clarify = Some ''Which provider?''
   \<and> ''Which provider?'' \<noteq> []
   \<and> conversationHistory (wizard_after (handleGeneratePlan
        (generateAutomationPlan ex_parse (Inr (Some ''clarify''))) ex_new
        ((mount ex_new)\<lparr>promptText := ''invoices''\<rparr>))) =
       [\<lparr>role = User, turn_text = ''invoices''\<rparr>, \<lparr>role = Model, turn_text = ''Which provider?''\<rparr>]"
proof -
  have 1: "trim (promptText ((mount ex_new)\<lparr>promptText := ''invoices''\<rparr>)) \<noteq> []"
    by (simp add: trim_examples)
  have 2: "generateAutomationPlan ex_parse (Inr (Some ''clarify'')) = Inr ex_clarify"
    by (simp add: generateAutomationPlan_def truthy_def ex_parse_def ex_clarify_def)
  have 3: "isValid ex_clarify = Some False" "question ex_clarify = Some ''Which provider?''"
    "''Which provider?'' \<noteq> []"
    by (simp_all add: ex_clarify_def)
  show ?thesis
    using clarification_round [OF 1 2 3, of ex_new] 1 2 3
    by (simp add: Let_def mount_def)
qed

section \<open>Results in neither expected shape\<close>

text \<open>
  Claim C9. When the decoded result is in neither expected shape (it is not
  \<^verbatim>\<open>isValid\<close> true together with a plan, and it has no non-empty question), as when the
  service returned no text and the default \<^verbatim>\<open>{}\<close> was decoded, the plan handler changes
  nothing on the workflow or the conversation, throws nothing, and only clears the
  pending clarification question (\<^verbatim>\<open>loading\<close> ends false, as it was when the button was
  enabled).
\<close>

theorem unexpected_shape_ignored:
  assumes "trim (promptText wz) \<noteq> []"
    and "generateAutomationPlan JSON_parse response = Inr r"
    and "\<not> (isValid r = Some True \<and> result_plan r \<noteq> None)"
    and "\<not> truthy (question r)"
  shows "let R = handleGeneratePlan (generateAutomationPlan JSON_parse response) w wz in
           wizard_after R = wz\<lparr>loading := False, clarificationQuestion := None\<rparr>
         \<and> (\<not> loading wz \<longrightarrow> wizard_after R = wz\<lparr>clarificationQuestion := None\<rparr>)
         \<and> conversationHistory (wizard_after R) = conversationHistory wz
         \<and> updated R = None \<and> workflow_after w R = w \<and> thrown R = None"
  using assms by (auto simp: handleGeneratePlan_def workflow_after_def Let_def)

theorem unexpected_shape_ignored_witness:
  "trim (promptText ((mount ex_new)\<lparr>promptText := ''Gmail'', clarificationQuestion := Some ''Which provider?''\<rparr>)) \<noteq> []
   \<and> generateAutomationPlan ex_parse (Inr None) = Inr ex_empty
   \<and> \<not> (isValid ex_empty = Some True \<and> result_plan ex_empty \<noteq> None)
   \<and> \<not> truthy (question ex_empty)
   \<and> wizard_after (handleGeneratePlan (generateAutomationPlan ex_parse (Inr None)) ex_new
        ((mount ex_new)\<lparr>promptText := ''Gmail'', clarificationQuestion := Some ''Which provider?''\<rparr>))
       = (mount ex_new)\<lparr>promptText := ''Gmail''\<rparr>
   \<and> thrown (handleGeneratePlan (generateAutomationPlan ex_parse (Inr None)) ex_new
        ((mount ex_new)\<lparr>promptText := ''Gmail'', clarificationQuestion := Some ''Which provider?''\<rparr>))
       = None"
proof -
  let ?wz = "(mount ex_new)\<lparr>promptText := ''Gmail'', clarificationQuestion := Some ''Which provider?''\<rparr>"
  have 1: "trim (promptText ?wz) \<noteq> []"
    by (simp add: trim_examples)
  have 2: "generateAutomationPlan ex_parse (Inr None) = Inr ex_empty"
    by (simp add: generateAutomationPlan_def truthy_def ex_parse_def ex_empty_def)
  have 3: "\<not> (isValid ex_empty = Some True \<and> result_plan ex_empty \<noteq> None)"
    by (simp add: ex_empty_def)
  have 4: "\<not> truthy (question ex_empty)"
    by (simp add: ex_empty_def truthy_def)
  show ?thesis
    using unexpected_shape_ignored [OF 1 2 3 4, of ex_new] 1 2 3 4
    by (simp add: Let_def mount_def)
qed

section \<open>Malformed responses\<close>

text \<open>
  Claim C4, as stated, says that a response that cannot be decoded leaves the pending
  clarification question unchanged. The handler clears the question before the call
  and no path restores it: here a pending question is gone after the failed attempt.
\<close>

theorem malformed_response_clears_question:
  "generateAutomationPlan ex_parse (Inr (Some ''not json'')) = Inl InvalidFormat
   \<and> clarificationQuestion ((mount ex_new)\<lparr>promptText := ''Gmail'',
        conversationHistory := [\<lparr>role = User, turn_text = ''invoices''\<rparr>,
                                \<lparr>role = Model, turn_text = ''Which provider?''\<rparr>],
        clarificationQuestion := Some ''Which provider?''\<rparr>) = Some ''Which provider?''
   \<and> clarificationQuestion (wizard_after (handleGeneratePlan
        (generateAutomationPlan ex_parse (Inr (Some ''not json''))) ex_new
        ((mount ex_new)\<lparr>promptText := ''Gmail'',
           conversationHistory := [\<lparr>role = User, turn_text = ''invoices''\<rparr>,
                                   \<lparr>role = Model, turn_text = ''Which provider?''\<rparr>],
           clarificationQuestion := Some ''Which provider?''\<rparr>))) = None"
  by (simp add: generateAutomationPlan_def truthy_def ex_parse_def handleGeneratePlan_def
      trim_examples Let_def)

text \<open>
  Claim C4, amended. When the response cannot be decoded, the plan handler rejects
  with the format error and leaves the conversation history, the input buffer, the
  step and the workflow (so its plan and script) unchanged; the pending clarification
  question is cleared; and a retry from the state after the failure behaves, for
  every outcome of the new call, exactly as it would have from the state before it.
\<close>

theorem malformed_response:
  assumes "trim (promptText wz) \<noteq> []"
    and "generateAutomationPlan JSON_parse response = Inl InvalidFormat"
  shows "let R = handleGeneratePlan (generateAutomationPlan JSON_parse response) w wz in
           thrown R = Some InvalidFormat
         \<and> updated R = None \<and> workflow_after w R = w
         \<and> conversationHistory (wizard_after R) = conversationHistory wz
         \<and> promptText (wizard_after R) = promptText wz
         \<and> step (wizard_after R) = step wz
         \<and> clarificationQuestion (wizard_after R) = None
         \<and> (\<forall>awaited. handleGeneratePlan awaited w (wizard_after R)
                        = handleGeneratePlan awaited w wz)"
  using assms by (simp add: handleGeneratePlan_def workflow_after_def Let_def split: sum.splits)

theorem malformed_response_witness:
  "trim (promptText ((mount ex_new)\<lparr>promptText := ''Gmail''\<rparr>)) \<noteq> []
   \<and> generateAutomationPlan ex_parse (Inr (Some ''null'')) = Inl InvalidFormat
   \<and> thrown (handleGeneratePlan (generateAutomationPlan ex_parse (Inr (Some ''null''))) ex_new
        ((mount ex_new)\<lparr>promptText := ''Gmail''\<rparr>)) = Some InvalidFormat
   \<and> handleGeneratePlan (Inr ex_accept) ex_new
        (wizard_after (handleGeneratePlan (generateAutomationPlan ex_parse (Inr (Some ''null'')))
           ex_new ((mount ex_new)\<lparr>promptText := ''Gmail''\<rparr>)))
       = handleGeneratePlan (Inr ex_accept) ex_new ((mount ex_new)\<lparr>promptText := ''Gmail''\<rparr>)"
proof -
  let ?wz = "(mount ex_new)\<lparr>promptText := ''Gmail''\<rparr>"
  have 1: "trim (promptText ?wz) \<noteq> []"
    by (simp add: trim_examples)
  have 2: "generateAutomationPlan ex_parse (Inr (Some ''null'')) = Inl InvalidFormat"
    by (simp add: generateAutomationPlan_def truthy_def ex_parse_def)
  show ?thesis
    using malformed_response [OF 1 2, of ex_new] 1 2
    by (simp add: Let_def)
qed

section \<open>Blank utterances\<close>

text \<open>
  Claim C6, as stated, says that a blank utterance is rejected with an EmptyInput
  error rather than silently ignored. The guard of the handler is a plain return:
  nothing is thrown, for a whitespace-only buffer or an empty one.
\<close>

theorem blank_utterance_no_error:
  "thrown (handleGeneratePlan (Inr ex_accept) ex_new ((mount ex_new)\<lparr>promptText := ''  ''\<rparr>)) = None
   \<and> thrown (handleGeneratePlan (Inr ex_accept) ex_new ((mount ex_new)\<lparr>promptText := []\<rparr>)) = None"
  by (simp add: handleGeneratePlan_def trim_def is_whitespace_def)

text \<open>
  Claim C6, amended. When the input buffer is empty or holds only white space, the
  plan handler makes no call to the completion service, leaves the wizard state (so
  the conversation) and the workflow unchanged, and returns without any error.
\<close>

theorem blank_utterance_ignored:
  assumes "\<forall>c\<in>set (promptText wz). is_whitespace c"
  shows "handleGeneratePlan awaited w wz =
           \<lparr>wizard_after = wz, updated = None, calls = [], thrown = None\<rparr>
         \<and> workflow_after w (handleGeneratePlan awaited w wz) = w"
  using assms trim_Nil_iff [of "promptText wz"]
  by (simp add: handleGeneratePlan_def workflow_after_def)

theorem blank_utterance_ignored_witness:
  "is_whitespace (CHR 0x20) \<and> is_whitespace (CHR 0x0A)
   \<and> handleGeneratePlan (Inr ex_accept) ex_new
        ((mount ex_new)\<lparr>promptText := [CHR 0x20, CHR 0x0A]\<rparr>)
       = \<lparr>wizard_after = (mount ex_new)\<lparr>promptText := [CHR 0x20, CHR 0x0A]\<rparr>,
          updated = None, calls = [], thrown = None\<rparr>"
proof -
  have 1: "\<forall>c\<in>set (promptText ((mount ex_new)\<lparr>promptText := [CHR 0x20, CHR 0x0A]\<rparr>)). is_whitespace c"
    by (simp add: is_whitespace_def)
  have 2: "is_whitespace (CHR 0x20) \<and> is_whitespace (CHR 0x0A)"
    by (simp add: is_whitespace_def)
  show ?thesis
    using blank_utterance_ignored [OF 1, of "Inr ex_accept" ex_new] 2 by simp
qed

section \<open>Script synthesis\<close>

text \<open>
  Claim C7. A code-generation call that returns empty content is a synthesis failure:
  the wizard remains on Review, no script is stored and the status is not changed.
  The script handler does not do so. Here the response holds only a code fence, which
  \<^verbatim>\<open>generateScript\<close> strips to the empty string; on a Draft workflow shown on Review the
  handler stores that empty string as the script, sets the status to Generated and the
  step to Deploy, and throws nothing.
\<close>

theorem empty_script_is_stored:
  "generateScript (Inr (Some (code_fence @ ''javascript'' @ [CHR 0x0A] @ code_fence))) = Inr []
   \<and> plan ex_draft = Some ex_plan \<and> status ex_draft = Draft \<and> step (mount ex_draft) = Review
   \<and> step (wizard_after (handleGenerateScript
        (generateScript (Inr (Some (code_fence @ ''javascript'' @ [CHR 0x0A] @ code_fence))))
        ex_draft (mount ex_draft))) = Deploy
   \<and> updated (handleGenerateScript
        (generateScript (Inr (Some (code_fence @ ''javascript'' @ [CHR 0x0A] @ code_fence))))
        ex_draft (mount ex_draft)) = Some (ex_draft\<lparr>script := Some [], status := Generated\<rparr>)
   \<and> thrown (handleGenerateScript
        (generateScript (Inr (Some (code_fence @ ''javascript'' @ [CHR 0x0A] @ code_fence))))
        ex_draft (mount ex_draft)) = None"
proof -
  have 1: "generateScript (Inr (Some (code_fence @ ''javascript'' @ [CHR 0x0A] @ code_fence))) = Inr []"
    by (simp add: generateScript_def code_fence_def truthy_def trim_def is_whitespace_def)
  have 2: "plan ex_draft = Some ex_plan" "status ex_draft = Draft"
    by (simp_all add: ex_draft_def ex_new_def newWorkflow_def)
  have 3: "step (mount ex_draft) = Review"
    by (simp add: mount_def initialStep_def truthy_def ex_draft_def ex_new_def newWorkflow_def)
  show ?thesis
    unfolding 1 using 2 3 by (simp add: handleGenerateScript_def Let_def)
qed

text \<open>
  The other case of a failed synthesis is handled: when the code-generation call
  rejects, the script handler rejects with that error, the wizard stays on its step,
  \<^verbatim>\<open>onUpdate\<close> is not called, so no script is stored and the status is not changed.
\<close>

lemma synthesis_failure:
  assumes "plan w = Some p" and "generateScript response = Inl e"
  shows "let R = handleGenerateScript (generateScript response) w wz in
           thrown R = Some e
         \<and> updated R = None \<and> workflow_after w R = w
         \<and> step (wizard_after R) = step wz
         \<and> wizard_after R = wz\<lparr>loading := False\<rparr>
         \<and> calls R = [ScriptCall p (prompt w)]"
  using assms by (simp add: handleGenerateScript_def workflow_after_def Let_def)

lemma synthesis_failure_example:
  "plan ex_draft = Some ex_plan
   \<and> generateScript (Inl (CapabilityError ''503'')) = Inl (CapabilityError ''503'')
   \<and> handleGenerateScript (generateScript (Inl (CapabilityError ''503''))) ex_draft (mount ex_draft)
       = \<lparr>wizard_after = mount ex_draft, updated = None,
          calls = [ScriptCall ex_plan ''invoices''], thrown = Some (CapabilityError ''503'')\<rparr>
   \<and> step (mount ex_draft) = Review"
proof -
  have 1: "plan ex_draft = Some ex_plan"
    by (simp add: ex_draft_def ex_new_def newWorkflow_def)
  have 2: "generateScript (Inl (CapabilityError ''503'')) = Inl (CapabilityError ''503'')"
    by (simp add: generateScript_def)
  have 3: "step (mount ex_draft) = Review" "loading (mount ex_draft) = False"
    "prompt ex_draft = ''invoices''"
    by (simp_all add: mount_def initialStep_def truthy_def ex_draft_def ex_new_def newWorkflow_def)
  have 4: "(mount ex_draft)\<lparr>loading := False\<rparr> = mount ex_draft"
    by (simp add: mount_def)
  show ?thesis
    using synthesis_failure [OF 1 2, of "mount ex_draft"] 1 2 3 4
    by (simp add: Let_def run.equality)
qed


section \<open>Refining from Review\<close>

text \<open>
  Claim C8, as stated, says that refine discards the workflow's script if present.
  The button only sets the step: a script on the workflow is still there afterwards.
  The second state is the one the wizard is in when it is opened on a workflow whose
  synthesis returned the empty string.
\<close>

theorem refine_keeps_script:
  "script (fst (refine (ex_draft\<lparr>script := Some ''function run() {}'', status := Generated\<rparr>,
       (mount ex_draft)\<lparr>step := Review\<rparr>))) = Some ''function run() {}''
   \<and> step (mount (ex_draft\<lparr>script := Some [], status := Generated\<rparr>)) = Review
   \<and> script (fst (refine (ex_draft\<lparr>script := Some [], status := Generated\<rparr>,
       mount (ex_draft\<lparr>script := Some [], status := Generated\<rparr>)))) = Some []"
  by (simp add: refine_def mount_def initialStep_def truthy_def ex_draft_def ex_new_def
      newWorkflow_def)

text \<open>
  Claim C8, amended. The refine transition returns the wizard to Describe and leaves
  the workflow as it is: the script, if present, is kept, and so is the accepted plan;
  the conversation history, the input buffer and the pending question are retained.
\<close>

theorem refine_frame:
  "step (snd (refine (w, wz))) = Describe
   \<and> fst (refine (w, wz)) = w
   \<and> script (fst (refine (w, wz))) = script w
   \<and> plan (fst (refine (w, wz))) = plan w
   \<and> conversationHistory (snd (refine (w, wz))) = conversationHistory wz
   \<and> promptText (snd (refine (w, wz))) = promptText wz
   \<and> clarificationQuestion (snd (refine (w, wz))) = clarificationQuestion wz"
  by (simp add: refine_def)


section \<open>The derived wizard step\<close>

text \<open>
  Claim C2, as stated, says that an absent plan yields Describe whatever the script,
  and that plan and script both present yield Deploy. The derivation tests the script
  first and by truthiness: a workflow with a script and no plan opens on Deploy, and a
  workflow with a plan and the empty string as script opens on Review.
\<close>

theorem initialStep_script_first:
  "plan (ex_new\<lparr>script := Some ''function run() {}''\<rparr>) = None
   \<and> initialStep (ex_new\<lparr>script := Some ''function run() {}''\<rparr>) = Deploy
   \<and> plan (ex_draft\<lparr>script := Some []\<rparr>) \<noteq> None
   \<and> script (ex_draft\<lparr>script := Some []\<rparr>) \<noteq> None
   \<and> initialStep (ex_draft\<lparr>script := Some []\<rparr>) = Review"
  by (simp add: initialStep_def truthy_def ex_draft_def ex_new_def newWorkflow_def)

text \<open>
  Claim C2, amended. The step the wizard opens on is Deploy exactly when the script
  is a non-empty string (whether or not a plan is present); otherwise it is Review
  exactly when a plan is present, and Describe exactly when none is. It depends on
  nothing but those two facts about the workflow.
\<close>

theorem initialStep_table:
  "(initialStep w = Deploy \<longleftrightarrow> (\<exists>s. script w = Some s \<and> s \<noteq> []))
   \<and> (initialStep w = Review \<longleftrightarrow> \<not> (\<exists>s. script w = Some s \<and> s \<noteq> []) \<and> plan w \<noteq> None)
   \<and> (initialStep w = Describe \<longleftrightarrow> \<not> (\<exists>s. script w = Some s \<and> s \<noteq> []) \<and> plan w = None)
   \<and> ((plan w = None \<longleftrightarrow> plan w' = None) \<and> (truthy (script w) \<longleftrightarrow> truthy (script w'))
        \<longrightarrow> initialStep w = initialStep w')"
  by (auto simp: initialStep_def truthy_def split: option.splits)

theorem initialStep_table_witness:
  "(plan ex_draft = None \<longleftrightarrow> plan (ex_draft\<lparr>name := ''Other'', prompt := [], script := Some []\<rparr>) = None)
   \<and> (truthy (script ex_draft) \<longleftrightarrow> truthy (script (ex_draft\<lparr>name := ''Other'', prompt := [], script := Some []\<rparr>)))
   \<and> initialStep ex_draft = initialStep (ex_draft\<lparr>name := ''Other'', prompt := [], script := Some []\<rparr>)
   \<and> initialStep ex_draft = Review"
proof -
  have 1: "(plan ex_draft = None \<longleftrightarrow> plan (ex_draft\<lparr>name := ''Other'', prompt := [], script := Some []\<rparr>) = None)"
    by simp
  have 2: "(truthy (script ex_draft) \<longleftrightarrow> truthy (script (ex_draft\<lparr>name := ''Other'', prompt := [], script := Some []\<rparr>)))"
    by (simp add: truthy_def ex_draft_def ex_new_def newWorkflow_def)
  have 3: "plan ex_draft \<noteq> None" "\<not> (\<exists>s. script ex_draft = Some s \<and> s \<noteq> [])"
    by (simp_all add: ex_draft_def ex_new_def newWorkflow_def)
  show ?thesis
    using initialStep_table [of ex_draft "ex_draft\<lparr>name := ''Other'', prompt := [], script := Some []\<rparr>"]
      1 2 3 by blast
qed


section \<open>The store's update and delete\<close>

text \<open>
  Claim C10. Updating a workflow keeps the list's length and replaces, position by
  position, exactly the entries whose id is the updated workflow's id, every other
  entry staying where it is. Deleting by id returns a subsequence of the list (the
  order of what remains is kept) that holds no entry with that id and has lost
  exactly as many entries as had it.
\<close>

theorem store_update_delete:
  "length (handleUpdateWorkflow u ws) = length ws
   \<and> (\<forall>i<length ws. handleUpdateWorkflow u ws ! i = (if wf_id (ws ! i) = wf_id u then u else ws ! i))
   \<and> subseq (handleDeleteWorkflow k ws) ws
   \<and> (\<forall>w\<in>set (handleDeleteWorkflow k ws). wf_id w \<noteq> k)
   \<and> length (handleDeleteWorkflow k ws) + length (filter (\<lambda>w. wf_id w = k) ws) = length ws"
proof -
  have "length (handleUpdateWorkflow u ws) = length ws"
    by (simp add: handleUpdateWorkflow_def)
  moreover have "\<forall>i<length ws. handleUpdateWorkflow u ws ! i = (if wf_id (ws ! i) = wf_id u then u else ws ! i)"
    by (simp add: handleUpdateWorkflow_def)
  moreover have "subseq (handleDeleteWorkflow k ws) ws"
    by (simp add: handleDeleteWorkflow_def)
  moreover have "\<forall>w\<in>set (handleDeleteWorkflow k ws). wf_id w \<noteq> k"
    by (simp add: handleDeleteWorkflow_def)
  moreover have "length (handleDeleteWorkflow k ws) + length (filter (\<lambda>w. wf_id w = k) ws) = length ws"
    using length_filter_split [of "\<lambda>w. wf_id w \<noteq> k" ws] by (simp add: handleDeleteWorkflow_def)
  ultimately show ?thesis by blast
qed

theorem store_update_delete_witness:
  "handleUpdateWorkflow ex_draft [newWorkflow ''w2'' 5, ex_new, newWorkflow ''w3'' 7]
     = [newWorkflow ''w2'' 5, ex_draft, newWorkflow ''w3'' 7]
   \<and> handleUpdateWorkflow ex_draft [newWorkflow ''w2'' 5, ex_new, newWorkflow ''w3'' 7] ! 1 = ex_draft
   \<and> handleDeleteWorkflow ''w1'' [newWorkflow ''w2'' 5, ex_new, newWorkflow ''w3'' 7]
     = [newWorkflow ''w2'' 5, newWorkflow ''w3'' 7]
   \<and> subseq (handleDeleteWorkflow ''w1'' [newWorkflow ''w2'' 5, ex_new, newWorkflow ''w3'' 7])
        [newWorkflow ''w2'' 5, ex_new, newWorkflow ''w3'' 7]"
  using store_update_delete [of ex_draft "[newWorkflow ''w2'' 5, ex_new, newWorkflow ''w3'' 7]" "''w1''"]
  by (simp add: handleUpdateWorkflow_def handleDeleteWorkflow_def ex_draft_def ex_new_def
      newWorkflow_def)

section \<open>The persisted prompt\<close>

text \<open>
  Claim C1, as stated, says that the prompt persisted at acceptance is the
  concatenation of the user's utterances and nothing else. The handler flattens the
  whole conversation, the model's questions included, with a space between the texts:
  after one clarification round the question is part of the prompt.
\<close>

theorem accepted_prompt_has_questions:
  "prompt (fst (submitUtterance ''Gmail'' (Inr ex_accept)
      (rounds [(''invoices'', ex_clarify)] (ex_new, mount ex_new))))
     = ''invoices Which provider? Gmail''
   \<and> prompt (fst (submitUtterance ''Gmail'' (Inr ex_accept)
      (rounds [(''invoices'', ex_clarify)] (ex_new, mount ex_new))))
     \<noteq> concat [''invoices'', ''Gmail'']
   \<and> prompt (fst (submitUtterance ''Gmail'' (Inr ex_accept)
      (rounds [(''invoices'', ex_clarify)] (ex_new, mount ex_new))))
     \<noteq> join '' '' [''invoices'', ''Gmail'']"
  by (simp add: submitUtterance_def handleGeneratePlan_def workflow_after_def Let_def
      trim_examples truthy_def mount_def ex_clarify_def ex_accept_def)

text \<open>
  Claim C1, amended. For every session, from a newly opened wizard, of any number of
  clarification rounds followed by one accepted result, the prompt persisted on the
  workflow is the texts of all turns in order (each utterance followed by the question
  that answered it) and then the accepting utterance, joined by single spaces.
\<close>

theorem accepted_prompt:
  assumes "\<forall>(u, r)\<in>set rs. trim u \<noteq> [] \<and> needsClarification r"
    and "trim u \<noteq> []" and "accepted r"
  shows "prompt (fst (submitUtterance u (Inr r) (rounds rs (w, mount w))))
           = join '' '' (transcript rs @ [u])"
  using rounds_history [OF assms(1), of "(w, mount w)"]
  by (simp add: submitUtterance_accept [OF assms(2,3)] mount_def)

theorem accepted_prompt_witness:
  "trim ''invoices'' \<noteq> [] \<and> needsClarification ex_clarify
   \<and> trim ''hourly'' \<noteq> [] \<and> needsClarification (ex_clarify\<lparr>question := Some ''How often?''\<rparr>)
   \<and> trim ''Gmail'' \<noteq> [] \<and> accepted ex_accept
   \<and> prompt (fst (submitUtterance ''Gmail'' (Inr ex_accept)
        (rounds [(''invoices'', ex_clarify),
                 (''hourly'', ex_clarify\<lparr>question := Some ''How often?''\<rparr>)] (ex_new, mount ex_new))))
       = ''invoices Which provider? hourly How often? Gmail''"
proof -
  have 1: "needsClarification ex_clarify"
    "needsClarification (ex_clarify\<lparr>question := Some ''How often?''\<rparr>)"
    by (simp_all add: needsClarification_def truthy_def ex_clarify_def)
  have 2: "accepted ex_accept"
    by (simp add: accepted_def ex_accept_def)
  have 3: "\<forall>(u, r)\<in>set [(''invoices'', ex_clarify),
                 (''hourly'', ex_clarify\<lparr>question := Some ''How often?''\<rparr>)].
             trim u \<noteq> [] \<and> needsClarification r"
    using 1 by (simp add: trim_examples)
  have 4: "transcript [(''invoices'', ex_clarify),
                 (''hourly'', ex_clarify\<lparr>question := Some ''How often?''\<rparr>)]
           = [''invoices'', ''Which provider?'', ''hourly'', ''How often?'']"
    by (simp add: ex_clarify_def)
  show ?thesis
    using accepted_prompt [OF 3 trim_examples(1) 2, of ex_new] 1 2 trim_examples
    unfolding 4 by simp
qed

section \<open>Status and script\<close>

text \<open>
  What holds of every reachable state: without a script the status is Draft and the
  wizard is not on Deploy; with a non-empty script the status is Generated and the
  wizard is on Deploy; the empty string as script goes with either status.
\<close>

lemma reachable_submitUtterance:
  "reachable s \<Longrightarrow> step (snd s) = Describe \<Longrightarrow> reachable (submitUtterance u awaited s)"
  using reachable.submit [OF reachable.typing [of "fst s" "snd s" u], of awaited]
  by (simp add: submitUtterance_def Let_def)

lemma reachable_requestSynthesis:
  "reachable s \<Longrightarrow> step (snd s) = Review \<Longrightarrow> plan (fst s) \<noteq> None
   \<Longrightarrow> reachable (requestSynthesis awaited s)"
  using reachable.synthesize [of "fst s" "snd s" awaited]
  by (simp add: requestSynthesis_def Let_def)

lemma reachable_refine:
  "reachable s \<Longrightarrow> step (snd s) = Review \<Longrightarrow> plan (fst s) \<noteq> None \<Longrightarrow> reachable (refine s)"
  using reachable.refining [of "fst s" "snd s"] by simp

lemma reachable_reopen: "reachable s \<Longrightarrow> reachable (reopen s)"
  using reachable.reopening [of "fst s" "snd s"] by simp

lemma reachable_inv:
  "reachable s \<Longrightarrow>
     (script (fst s) = None \<and> status (fst s) = Draft \<and> step (snd s) \<noteq> Deploy)
     \<or> (truthy (script (fst s)) \<and> status (fst s) = Generated \<and> step (snd s) = Deploy)
     \<or> (script (fst s) = Some [] \<and> status (fst s) \<noteq> Deployed)"
proof (induction rule: reachable.induct)
  case (create uuid now)
  then show ?case
    by (simp add: newWorkflow_def mount_def initialStep_def truthy_def)
next
  case (typing w wz s)
  then show ?case by simp
next
  case (submit w wz awaited)
  then show ?case
    by (auto simp: handleGeneratePlan_def workflow_after_def Let_def truthy_def split: sum.splits)
next
  case (synthesize w wz awaited)
  then show ?case
    by (auto simp: handleGenerateScript_def workflow_after_def Let_def truthy_def split: sum.splits)
next
  case (refining w wz)
  then show ?case by (auto simp: refine_def)
next
  case (reopening w wz)
  then show ?case
    by (auto simp: reopen_def mount_def initialStep_def truthy_def)
qed

lemma status_script_nonempty:
  assumes "reachable (w, wz)"
  shows "(script w = None \<longrightarrow> status w = Draft)
       \<and> (status w = Generated \<longrightarrow> script w \<noteq> None)
       \<and> (truthy (script w) \<longrightarrow> status w = Generated)"
  using reachable_inv [OF assms] by (auto simp: truthy_def split: option.splits)

lemma ex_accepted_eq:
  "ex_accepted = (ex_draft, \<lparr>step = Review, loading = False, promptText = ''invoices'',
                     conversationHistory = [], clarificationQuestion = None\<rparr>)"
  by (simp add: ex_accepted_def submitUtterance_def handleGeneratePlan_def workflow_after_def
      Let_def trim_examples mount_def initialStep_def truthy_def ex_accept_def ex_draft_def
      ex_new_def newWorkflow_def ex_plan_def)

lemma ex_synthesized_eq:
  "ex_synthesized = (ex_draft\<lparr>script := Some [], status := Generated\<rparr>,
                     \<lparr>step = Deploy, loading = False, promptText = ''invoices'',
                      conversationHistory = [], clarificationQuestion = None\<rparr>)"
  by (simp add: ex_synthesized_def ex_accepted_eq requestSynthesis_def handleGenerateScript_def
      generateScript_def workflow_after_def Let_def truthy_def trim_def ex_draft_def)

lemma ex_reopened_eq:
  "refine (reopen ex_synthesized) = (ex_draft\<lparr>script := Some [], status := Generated\<rparr>,
                     \<lparr>step = Describe, loading = False, promptText = ''invoices'',
                      conversationHistory = [], clarificationQuestion = None\<rparr>)"
  "step (snd (reopen ex_synthesized)) = Review"
  by (simp_all add: ex_synthesized_eq refine_def reopen_def mount_def initialStep_def truthy_def
      ex_draft_def)

text \<open>
  Claim C3. For every workflow reachable through create, submitting an utterance
  with an accepted plan and requesting synthesis, the status is Generated if and only
  if the script is present, and Draft whenever it is absent. The application reaches a
  workflow for which this fails. A plan is accepted on a new workflow; synthesis gets
  a response without text and stores the empty string as the script, with status
  Generated; the wizard, opened again on that workflow, is on Review, since the empty
  string is falsy; after refine, accepting a plan writes status Draft and keeps the
  script. The workflow then has status Draft and a script that is not null.
\<close>

theorem draft_with_script_after_reopen:
  "reachable ex_reaccepted
   \<and> status (fst ex_synthesized) = Generated \<and> script (fst ex_synthesized) = Some []
   \<and> step (snd (reopen ex_synthesized)) = Review
   \<and> status (fst ex_reaccepted) = Draft \<and> script (fst ex_reaccepted) = Some []
   \<and> plan (fst ex_reaccepted) = Some ex_plan"
proof -
  have 0: "reachable (ex_new, mount ex_new)"
    unfolding ex_new_def by (rule reachable.create)
  have 1: "reachable ex_accepted"
    unfolding ex_accepted_def
    by (rule reachable_submitUtterance [OF 0])
       (simp add: mount_def initialStep_def truthy_def ex_new_def newWorkflow_def)
  have 2: "reachable ex_synthesized"
    unfolding ex_synthesized_def
    by (rule reachable_requestSynthesis [OF 1]) (simp_all add: ex_accepted_eq ex_draft_def)
  have 3: "reachable (reopen ex_synthesized)"
    by (rule reachable_reopen [OF 2])
  have 4: "reachable (refine (reopen ex_synthesized))"
    by (rule reachable_refine [OF 3])
       (simp_all add: ex_reopened_eq(2), simp add: ex_synthesized_eq reopen_def ex_draft_def)
  have 5: "reachable ex_reaccepted"
    unfolding ex_reaccepted_def
    by (rule reachable_submitUtterance [OF 4]) (simp add: ex_reopened_eq(1))
  have 6: "status (fst ex_reaccepted) = Draft" "script (fst ex_reaccepted) = Some []"
    "plan (fst ex_reaccepted) = Some ex_plan"
    by (simp_all add: ex_reaccepted_def ex_reopened_eq(1) submitUtterance_def
        handleGeneratePlan_def workflow_after_def Let_def trim_examples ex_accept_def ex_draft_def
        ex_new_def newWorkflow_def)
  have 7: "status (fst ex_synthesized) = Generated" "script (fst ex_synthesized) = Some []"
    by (simp_all add: ex_synthesized_eq)
  show ?thesis
    using 5 6 7 ex_reopened_eq(2) by simp
qed


end
